theory Spec2Isabelle
  imports Main "HOL-Library.Word"
begin

unbundle bit_operations_syntax

section \<open>Network byte order values (net/endian.hpp)\<close>

subsection \<open>Machine types and object representations\<close>

type_synonym byte = "8 word"
type_synonym uint16_t = "16 word"
type_synonym uint32_t = "32 word"

text \<open>
  \<open>size_t\<close> is 64 bits wide: the gxio mPIPE interface used by the frame composer exists
  on the TILE-Gx only, an LP64 target.
\<close>

type_synonym size_t = "64 word"

text \<open>
  An unsigned fixed-width integer type \<open>host_t\<close> is a word type \<open>'a word\<close>;
  \<open>sizeof (host_t)\<close> counts its bytes.
\<close>

definition sizeof :: "'a::len word \<Rightarrow> nat" where
  "sizeof value = LENGTH('a) div 8"

text \<open>
  The byte order of the host. \<open>endian.hpp\<close> reads it from the macro \<open>__BYTE_ORDER\<close> of
  \<open><endian.h>\<close> when it is built; the two constructors are the two orders the header
  builds for.
\<close>

datatype byte_order = LittleEndian | BigEndian

text \<open>
  The bytes of a word from the least significant one up: what \<open>(uint8_t *) &value\<close>
  points at on a little-endian host.
\<close>

definition le_bytes :: "'a::len word \<Rightarrow> byte list" where
  "le_bytes value = map (\<lambda>k. ucast (drop_bit (8 * k) value)) [0..<sizeof value]"

definition of_le_bytes :: "byte list \<Rightarrow> 'a::len word" where
  "of_le_bytes bs = word_of_int (horner_sum uint (2 ^ 8) bs)"

text \<open>
  The object representation of a value in the memory of the host, in address order, and
  the value that a sequence of bytes in memory stands for.
\<close>

definition obj_bytes :: "byte_order \<Rightarrow> 'a::len word \<Rightarrow> byte list" where
  "obj_bytes bo value = (case bo of
     LittleEndian \<Rightarrow> le_bytes value
   | BigEndian \<Rightarrow> rev (le_bytes value))"

definition of_obj_bytes :: "byte_order \<Rightarrow> byte list \<Rightarrow> 'a::len word" where
  "of_obj_bytes bo bs = (case bo of
     LittleEndian \<Rightarrow> of_le_bytes bs
   | BigEndian \<Rightarrow> of_le_bytes (rev bs))"

subsection \<open>The build-time choice of \<open>_change_endian\<close>\<close>

text \<open>
  The values of \<open>__LITTLE_ENDIAN\<close> and \<open>__BIG_ENDIAN\<close> in \<open><endian.h>\<close>.
\<close>

definition LITTLE_ENDIAN_macro :: nat where
  "LITTLE_ENDIAN_macro = 1234"

definition BIG_ENDIAN_macro :: nat where
  "BIG_ENDIAN_macro = 4321"

datatype build_error = Error string

text \<open>
  The conditional directives in the body of \<open>_change_endian\<close> are decided by the
  preprocessor from the value of \<open>__BYTE_ORDER\<close>: it selects the little-endian body
  or the big-endian body, or stops the build at the \<open>#error\<close> directive.
\<close>

definition change_endian_build :: "nat \<Rightarrow> build_error + byte_order" where
  "change_endian_build BYTE_ORDER =
     (if BYTE_ORDER = LITTLE_ENDIAN_macro then Inr LittleEndian
      else if BYTE_ORDER = BIG_ENDIAN_macro then Inr BigEndian
      else Inl (Error ''Please set __BYTE_ORDER in <bits/endian.h>''))"

subsection \<open>Generic \<open>change_endian_t\<close>\<close>

text \<open>
  The loop of \<open>_change_endian\<close>:
  \<^verbatim>\<open>for (int i = 0; i < sizeof (host_t) / 2; i++)
    swap<uint8_t>(value_bytes[i], value_bytes[sizeof (host_t) - 1 - i]);\<close>
  with \<open>n\<close> for \<open>sizeof (host_t)\<close>.
\<close>

function swap_loop :: "nat \<Rightarrow> nat \<Rightarrow> byte list \<Rightarrow> byte list" where
  "swap_loop n i value_bytes =
     (if i < n div 2
      then swap_loop n (i + 1)
             (value_bytes[i := value_bytes ! (n - 1 - i), n - 1 - i := value_bytes ! i])
      else value_bytes)"
  by pat_completeness auto
termination
  by (relation "measure (\<lambda>(n, i, value_bytes). n div 2 - i)") auto

text \<open>
  \<open>_change_endian\<close> (the leading underscore is dropped), as built for each byte order.
\<close>

definition change_endian :: "byte_order \<Rightarrow> 'a::len word \<Rightarrow> 'a word" where
  "change_endian bo value = (case bo of
     LittleEndian \<Rightarrow>
       of_obj_bytes LittleEndian
         (swap_loop (sizeof value) 0 (obj_bytes LittleEndian value))
   | BigEndian \<Rightarrow> value)"

definition generic_to_network :: "byte_order \<Rightarrow> 'a::len word \<Rightarrow> 'a word" where
  "generic_to_network bo host = change_endian bo host"

definition generic_to_host :: "byte_order \<Rightarrow> 'a::len word \<Rightarrow> 'a word" where
  "generic_to_host bo net = change_endian bo net"

subsection \<open>The specialisations for \<open>uint16_t\<close> and \<open>uint32_t\<close>\<close>

text \<open>
  \<open>htons\<close>, \<open>ntohs\<close>, \<open>htonl\<close> and \<open>ntohl\<close> are the primitives of \<open><arpa/inet.h>\<close>, not
  code of this repository. They are modelled by what POSIX says of them: conversion
  between host and network (big-endian) byte order, which exchanges the bytes on a
  little-endian host and does nothing on a big-endian one.
\<close>

definition bswap_16 :: "uint16_t \<Rightarrow> uint16_t" where
  "bswap_16 x = push_bit 8 x OR drop_bit 8 x"

definition bswap_32 :: "uint32_t \<Rightarrow> uint32_t" where
  "bswap_32 x =
     push_bit 24 x OR push_bit 16 (take_bit 8 (drop_bit 8 x)) OR
     push_bit 8 (take_bit 8 (drop_bit 16 x)) OR drop_bit 24 x"

definition htons :: "byte_order \<Rightarrow> uint16_t \<Rightarrow> uint16_t" where
  "htons bo hostshort = (case bo of LittleEndian \<Rightarrow> bswap_16 hostshort | BigEndian \<Rightarrow> hostshort)"

definition ntohs :: "byte_order \<Rightarrow> uint16_t \<Rightarrow> uint16_t" where
  "ntohs bo netshort = (case bo of LittleEndian \<Rightarrow> bswap_16 netshort | BigEndian \<Rightarrow> netshort)"

definition htonl :: "byte_order \<Rightarrow> uint32_t \<Rightarrow> uint32_t" where
  "htonl bo hostlong = (case bo of LittleEndian \<Rightarrow> bswap_32 hostlong | BigEndian \<Rightarrow> hostlong)"

definition ntohl :: "byte_order \<Rightarrow> uint32_t \<Rightarrow> uint32_t" where
  "ntohl bo netlong = (case bo of LittleEndian \<Rightarrow> bswap_32 netlong | BigEndian \<Rightarrow> netlong)"

definition uint16_to_network :: "byte_order \<Rightarrow> uint16_t \<Rightarrow> uint16_t" where
  "uint16_to_network bo host = htons bo host"

definition uint16_to_host :: "byte_order \<Rightarrow> uint16_t \<Rightarrow> uint16_t" where
  "uint16_to_host bo net = ntohs bo net"

definition uint32_to_network :: "byte_order \<Rightarrow> uint32_t \<Rightarrow> uint32_t" where
  "uint32_to_network bo host = htonl bo host"

definition uint32_to_host :: "byte_order \<Rightarrow> uint32_t \<Rightarrow> uint32_t" where
  "uint32_to_host bo net = ntohl bo net"

text \<open>
  Template instantiation: \<open>change_endian_t<host_t>\<close> is the specialisation for
  \<open>uint16_t\<close> or \<open>uint32_t\<close> when \<open>host_t\<close> is that type and the generic template for
  every other type. Among the unsigned fixed-width types the width names the type; the
  casts are between words of the same width.
\<close>

definition to_network :: "byte_order \<Rightarrow> 'a::len word \<Rightarrow> 'a word" where
  "to_network bo host =
     (if LENGTH('a) = 16 then ucast (uint16_to_network bo (ucast host))
      else if LENGTH('a) = 32 then ucast (uint32_to_network bo (ucast host))
      else generic_to_network bo host)"

definition to_host :: "byte_order \<Rightarrow> 'a::len word \<Rightarrow> 'a word" where
  "to_host bo net =
     (if LENGTH('a) = 16 then ucast (uint16_to_host bo (ucast net))
      else if LENGTH('a) = 32 then ucast (uint32_to_host bo (ucast net))
      else generic_to_host bo net)"

subsection \<open>\<open>net_t\<close>\<close>

text \<open>The template parameter \<open>host_t\<close> is the type parameter of the record.\<close>

record 'host_t net_t =
  net :: "'host_t"

text \<open>The constructor \<open>net_t(host_t host)\<close>.\<close>

definition net_t :: "byte_order \<Rightarrow> 'a::len word \<Rightarrow> 'a word net_t" where
  "net_t bo host = \<lparr>net = to_network bo host\<rparr>"

definition host :: "byte_order \<Rightarrow> 'a::len word net_t \<Rightarrow> 'a word" where
  "host bo a = to_host bo (net a)"

definition from_net :: "'a::len word \<Rightarrow> 'a word net_t" where
  "from_net n = \<lparr>net = n\<rparr>"

text \<open>\<open>operator=\<close>: the assigned object after the assignment.\<close>

definition assign :: "'a::len word net_t \<Rightarrow> 'a word net_t \<Rightarrow> 'a word net_t" where
  "assign this other = this\<lparr>net := net other\<rparr>"

text \<open>\<open>operator==\<close> and \<open>operator!=\<close>, in the order of the source.\<close>

definition eq_net_net :: "'a::len word net_t \<Rightarrow> 'a word net_t \<Rightarrow> bool" where
  "eq_net_net a b = (net a = net b)"

definition ne_net_net :: "'a::len word net_t \<Rightarrow> 'a word net_t \<Rightarrow> bool" where
  "ne_net_net a b = (net a \<noteq> net b)"

definition eq_net_host :: "byte_order \<Rightarrow> 'a::len word net_t \<Rightarrow> 'a word \<Rightarrow> bool" where
  "eq_net_host bo a b = (host bo a = b)"

definition ne_net_host :: "byte_order \<Rightarrow> 'a::len word net_t \<Rightarrow> 'a word \<Rightarrow> bool" where
  "ne_net_host bo a b = (host bo a \<noteq> b)"

definition eq_host_net :: "byte_order \<Rightarrow> 'a::len word \<Rightarrow> 'a word net_t \<Rightarrow> bool" where
  "eq_host_net bo a b = (a = host bo b)"

definition ne_host_net :: "byte_order \<Rightarrow> 'a::len word \<Rightarrow> 'a word net_t \<Rightarrow> bool" where
  "ne_host_net bo a b = (a \<noteq> host bo b)"

text \<open>
  \<open>operator+\<close> and \<open>operator-\<close>. The sum is computed on host values and handed to the
  constructor, whose parameter is a \<open>host_t\<close>: the result is the sum modulo the width,
  which is the addition of words.
\<close>

definition plus_net_net :: "byte_order \<Rightarrow> 'a::len word net_t \<Rightarrow> 'a word net_t \<Rightarrow> 'a word net_t" where
  "plus_net_net bo a b = net_t bo (host bo a + host bo b)"

definition plus_net_host :: "byte_order \<Rightarrow> 'a::len word net_t \<Rightarrow> 'a word \<Rightarrow> 'a word net_t" where
  "plus_net_host bo a b = net_t bo (host bo a + b)"

definition plus_host_net :: "byte_order \<Rightarrow> 'a::len word \<Rightarrow> 'a word net_t \<Rightarrow> 'a word net_t" where
  "plus_host_net bo a b = net_t bo (a + host bo b)"

definition minus_net_net :: "byte_order \<Rightarrow> 'a::len word net_t \<Rightarrow> 'a word net_t \<Rightarrow> 'a word net_t" where
  "minus_net_net bo a b = net_t bo (host bo a - host bo b)"

definition minus_net_host :: "byte_order \<Rightarrow> 'a::len word net_t \<Rightarrow> 'a word \<Rightarrow> 'a word net_t" where
  "minus_net_host bo a b = net_t bo (host bo a - b)"

definition minus_host_net :: "byte_order \<Rightarrow> 'a::len word \<Rightarrow> 'a word net_t \<Rightarrow> 'a word net_t" where
  "minus_host_net bo a b = net_t bo (a - host bo b)"

subsection \<open>\<open>std::equal_to\<close> and \<open>std::hash\<close> for \<open>net_t\<close>\<close>

definition equal_to_net_t :: "'a::len word net_t \<Rightarrow> 'a word net_t \<Rightarrow> bool" where
  "equal_to_net_t a b = eq_net_net a b"

text \<open>
  \<open>hash<host_t>\<close> belongs to the standard library; it is the parameter \<open>hash_host_t\<close>.
\<close>

definition hash_net_t :: "('a::len word \<Rightarrow> size_t) \<Rightarrow> 'a word net_t \<Rightarrow> size_t" where
  "hash_net_t hash_host_t value = hash_host_t (net value)"

section \<open>Ethernet frames (ethernet.hpp)\<close>

subsection \<open>Memory\<close>

text \<open>
  The header and the payload are written through pointers into the buffer of the hardware:
  memory is a store of bytes by address, and a writer is a function on stores.
\<close>

type_synonym addr = nat
type_synonym memory = "addr \<Rightarrow> byte"

definition store_bytes :: "addr \<Rightarrow> byte list \<Rightarrow> memory \<Rightarrow> memory" where
  "store_bytes p bs mem = (\<lambda>a. if p \<le> a \<and> a < p + length bs then bs ! (a - p) else mem a)"

definition load_bytes :: "memory \<Rightarrow> addr \<Rightarrow> nat \<Rightarrow> byte list" where
  "load_bytes mem p n = map mem [p..<p + n]"

text \<open>\<open>mempcpy (dest, src, n)\<close>, with the bytes at \<open>src\<close> given.\<close>

definition mempcpy :: "addr \<Rightarrow> byte list \<Rightarrow> nat \<Rightarrow> memory \<Rightarrow> memory" where
  "mempcpy dest src n mem = store_bytes dest (take n src) mem"

subsection \<open>The types of \<open><net/ethernet.h>\<close> and \<open><gxio/mpipe.h>\<close>\<close>

text \<open>\<open>struct ether_addr\<close>: an array of six bytes.\<close>

datatype ether_addr = Ether_addr byte byte byte byte byte byte

fun ether_addr_octet :: "ether_addr \<Rightarrow> byte list" where
  "ether_addr_octet (Ether_addr a b c d e f) = [a, b, c, d, e, f]"

definition sizeof_ether_addr :: nat where
  "sizeof_ether_addr = 6"

text \<open>
  \<open>struct ether_header\<close> is packed: \<open>ether_dhost\<close> (six bytes), \<open>ether_shost\<close> (six
  bytes), \<open>ether_type\<close> (a \<open>uint16_t\<close>). A pointer to a field is the pointer to the
  header plus the offset of the field.
\<close>

definition sizeof_ether_header :: nat where
  "sizeof_ether_header = 14"

definition ether_dhost :: "addr \<Rightarrow> addr" where
  "ether_dhost hdr = hdr + 0"

definition ether_shost :: "addr \<Rightarrow> addr" where
  "ether_shost hdr = hdr + 6"

definition ether_type_field :: "addr \<Rightarrow> addr" where
  "ether_type_field hdr = hdr + 12"

text \<open>
  The buffer and egress descriptors, with the fields that the source and its comment on
  \<open>gxio_mpipe_edesc_set_bdesc\<close> name. \<open>xfer_size\<close> holds the value assigned to it; the
  width that the hardware gives the field is not modelled.
\<close>

record gxio_mpipe_bdesc_t =
  bdesc_va :: addr
  bdesc_stack_idx :: nat
  bdesc_inst :: nat
  bdesc_hwb :: nat
  bdesc_size :: nat
  bdesc_c :: nat

record gxio_mpipe_edesc_t =
  bound :: nat
  hwb :: nat
  xfer_size :: size_t
  va :: addr
  stack_idx :: nat
  inst :: nat
  size_code :: nat
  c :: nat

text \<open>The initialiser \<open>{ 0 }\<close>.\<close>

definition edesc_zero :: gxio_mpipe_edesc_t where
  "edesc_zero = \<lparr>bound = 0, hwb = 0, xfer_size = 0, va = 0, stack_idx = 0, inst = 0,
     size_code = 0, c = 0\<rparr>"

definition gxio_mpipe_edesc_set_bdesc ::
  "gxio_mpipe_edesc_t \<Rightarrow> gxio_mpipe_bdesc_t \<Rightarrow> gxio_mpipe_edesc_t" where
  "gxio_mpipe_edesc_set_bdesc edesc bdesc =
     edesc\<lparr>va := bdesc_va bdesc, stack_idx := bdesc_stack_idx bdesc, inst := bdesc_inst bdesc,
       hwb := bdesc_hwb bdesc, size_code := bdesc_size bdesc, c := bdesc_c bdesc\<rparr>"

text \<open>
  The egress queue is the sequence of the descriptors put on it, oldest first.
\<close>

definition gxio_mpipe_equeue_put ::
  "gxio_mpipe_edesc_t list \<Rightarrow> gxio_mpipe_edesc_t \<Rightarrow> gxio_mpipe_edesc_t list" where
  "gxio_mpipe_equeue_put equeue edesc = equeue @ [edesc]"

text \<open>The fields of \<open>mpipe_env_t\<close> that \<open>ethernet.hpp\<close> reads.\<close>

record mpipe_env_t =
  link_addr :: ether_addr
  equeue :: "gxio_mpipe_edesc_t list"

text \<open>
  The bytes that the hardware sends for a descriptor: \<open>xfer_size\<close> bytes from \<open>va\<close>.
\<close>

definition frame_bytes :: "memory \<Rightarrow> gxio_mpipe_edesc_t \<Rightarrow> byte list" where
  "frame_bytes mem edesc = load_bytes mem (va edesc) (unat (xfer_size edesc))"

subsection \<open>The buffer cursor\<close>

text \<open>
  Modelled from the spec: \<open>buffer_cursor_t\<close> and its member \<open>write_with\<close> are declared
  in \<open>buffer.hpp\<close>, which is not among the sources. The cursor has a reference to the
  buffer descriptor it writes into, a write offset and the total capacity of the buffer.
\<close>

record buffer_cursor_t =
  cursor_bdesc :: gxio_mpipe_bdesc_t
  offset :: nat
  capacity :: nat

text \<open>
  Modelled from the spec: the constructor \<open>buffer_cursor_t (&bdesc, total_size)\<close> gives a
  cursor over a new buffer, with the capacity \<open>total_size\<close>.
\<close>

definition buffer_cursor :: "gxio_mpipe_bdesc_t \<Rightarrow> size_t \<Rightarrow> buffer_cursor_t" where
  "buffer_cursor bdesc total_size =
     \<lparr>cursor_bdesc = bdesc, offset = 0, capacity = unat total_size\<rparr>"

text \<open>The address of the current offset in the buffer of the cursor.\<close>

definition cursor_ptr :: "buffer_cursor_t \<Rightarrow> addr" where
  "cursor_ptr cursor = bdesc_va (cursor_bdesc cursor) + offset cursor"

text \<open>
  Modelled from the spec: \<open>write_with<H> (writer)\<close> reserves \<open>sizeof (H)\<close> bytes at the
  current offset, invokes \<open>writer\<close> with a pointer to the reserved region, which is in the
  buffer itself, advances the offset by \<open>sizeof (H)\<close> and returns the advanced cursor.
  That the region fits the capacity is not checked again at each write.
\<close>

definition write_with ::
  "nat \<Rightarrow> (addr \<Rightarrow> memory \<Rightarrow> memory) \<Rightarrow> buffer_cursor_t \<Rightarrow> memory \<Rightarrow>
   buffer_cursor_t \<times> memory" where
  "write_with sizeof_H writer cursor mem =
     (cursor\<lparr>offset := offset cursor + sizeof_H\<rparr>, writer (cursor_ptr cursor) mem)"

text \<open>
  A sequence of chained \<open>write_with\<close> calls, each given by the size it reserves and its
  writer, and the regions of the buffer that the calls reserve: the offset where a region
  starts and its size.
\<close>

fun write_with_seq ::
  "(nat \<times> (addr \<Rightarrow> memory \<Rightarrow> memory)) list \<Rightarrow> buffer_cursor_t \<Rightarrow> memory \<Rightarrow>
   buffer_cursor_t \<times> memory" where
  "write_with_seq [] cursor mem = (cursor, mem)"
| "write_with_seq ((sizeof_H, writer) # calls) cursor mem =
     (case write_with sizeof_H writer cursor mem of
        (cursor', mem') \<Rightarrow> write_with_seq calls cursor' mem')"

fun reserved_regions ::
  "(nat \<times> (addr \<Rightarrow> memory \<Rightarrow> memory)) list \<Rightarrow> buffer_cursor_t \<Rightarrow> memory \<Rightarrow>
   (nat \<times> nat) list" where
  "reserved_regions [] cursor mem = []"
| "reserved_regions ((sizeof_H, writer) # calls) cursor mem =
     (offset cursor, sizeof_H) #
     (case write_with sizeof_H writer cursor mem of
        (cursor', mem') \<Rightarrow> reserved_regions calls cursor' mem')"

text \<open>The offsets of the bytes of a region.\<close>

definition region_bytes :: "nat \<times> nat \<Rightarrow> nat set" where
  "region_bytes region = {fst region..<fst region + snd region}"

subsection \<open>Sending a frame\<close>

definition BROADCAST_ETHER_ADDR :: ether_addr where
  "BROADCAST_ETHER_ADDR = Ether_addr 0xFF 0xFF 0xFF 0xFF 0xFF 0xFF"

text \<open>
  \<open>_ethernet_write_header\<close> (the leading underscore is dropped). The assignment to
  \<open>hdr->ether_type\<close> stores the object representation of the \<open>uint16_t\<close>.
\<close>

definition ethernet_write_header ::
  "byte_order \<Rightarrow> mpipe_env_t \<Rightarrow> buffer_cursor_t \<Rightarrow> ether_addr \<Rightarrow> uint16_t \<Rightarrow> memory \<Rightarrow>
   buffer_cursor_t \<times> memory" where
  "ethernet_write_header bo mpipe_env cursor dst ether_type mem =
     write_with sizeof_ether_header
       (\<lambda>hdr mem0.
          let src = link_addr mpipe_env;
              mem1 = mempcpy (ether_dhost hdr) (ether_addr_octet dst) sizeof_ether_addr mem0;
              mem2 = mempcpy (ether_shost hdr) (ether_addr_octet src) sizeof_ether_addr mem1
          in store_bytes (ether_type_field hdr) (obj_bytes bo ether_type) mem2)
       cursor mem"

text \<open>
  \<open>ethernet_send_frame\<close>. The allocator \<open>mpipe_alloc_buffer\<close> of \<open>mpipe.hpp\<close> is a
  parameter: it gives a buffer descriptor, or fails with an error \<open>Inl e\<close> that leaves
  \<open>ethernet_send_frame\<close>, which has no handler for it. The payload writer gets the cursor
  by value and acts on the memory. The result is the outcome of the call, the environment
  with its egress queue, and the memory. The debug message is left out.
\<close>

definition ethernet_send_frame ::
  "byte_order \<Rightarrow> (mpipe_env_t \<Rightarrow> size_t \<Rightarrow> 'e + gxio_mpipe_bdesc_t) \<Rightarrow> mpipe_env_t \<Rightarrow>
   size_t \<Rightarrow> ether_addr \<Rightarrow> uint16_t \<Rightarrow> (buffer_cursor_t \<Rightarrow> memory \<Rightarrow> memory) \<Rightarrow> memory \<Rightarrow>
   ('e + unit) \<times> mpipe_env_t \<times> memory" where
  "ethernet_send_frame bo mpipe_alloc_buffer mpipe_env payload_size dst ether_type
       payload_writer mem =
     (let headers_size = of_nat sizeof_ether_header;
          frame_size = headers_size + payload_size
      in case mpipe_alloc_buffer mpipe_env frame_size of
           Inl e \<Rightarrow> (Inl e, mpipe_env, mem)
         | Inr bdesc \<Rightarrow>
             (let cursor0 = buffer_cursor bdesc frame_size;
                  (cursor, mem1) = ethernet_write_header bo mpipe_env cursor0 dst ether_type mem;
                  mem2 = payload_writer cursor mem1;
                  edesc0 = edesc_zero\<lparr>bound := 1, hwb := 1, xfer_size := frame_size\<rparr>;
                  edesc = gxio_mpipe_edesc_set_bdesc edesc0 bdesc
              in (Inr (),
                  mpipe_env\<lparr>equeue := gxio_mpipe_equeue_put (equeue mpipe_env) edesc\<rparr>,
                  mem2)))"

text \<open>The frames on the egress queue, oldest first, as the memory holds them.\<close>

definition sent_frames :: "mpipe_env_t \<Rightarrow> memory \<Rightarrow> byte list list" where
  "sent_frames mpipe_env mem = map (frame_bytes mem) (equeue mpipe_env)"

text \<open>The same for the result of \<open>ethernet_send_frame\<close>.\<close>

definition frames_after :: "('e + unit) \<times> mpipe_env_t \<times> memory \<Rightarrow> byte list list" where
  "frames_after result = sent_frames (fst (snd result)) (snd (snd result))"

subsection \<open>A frame scenario\<close>

text \<open>
  A link with the address \<open>11:22:33:44:55:66\<close> and an empty egress queue, an allocator
  that has a buffer at the address 4096, an allocator that has none, and a payload writer
  that copies given bytes to the position of its cursor.
\<close>

definition scenario_env :: mpipe_env_t where
  "scenario_env = \<lparr>link_addr = Ether_addr 0x11 0x22 0x33 0x44 0x55 0x66, equeue = []\<rparr>"

definition scenario_bdesc :: gxio_mpipe_bdesc_t where
  "scenario_bdesc = \<lparr>bdesc_va = 4096, bdesc_stack_idx = 0, bdesc_inst = 0, bdesc_hwb = 1,
     bdesc_size = 0, bdesc_c = 0\<rparr>"

definition alloc_available :: "mpipe_env_t \<Rightarrow> size_t \<Rightarrow> string + gxio_mpipe_bdesc_t" where
  "alloc_available mpipe_env frame_size = Inr scenario_bdesc"

definition alloc_exhausted :: "mpipe_env_t \<Rightarrow> size_t \<Rightarrow> string + gxio_mpipe_bdesc_t" where
  "alloc_exhausted mpipe_env frame_size = Inl ''no buffer''"

definition write_payload :: "byte list \<Rightarrow> buffer_cursor_t \<Rightarrow> memory \<Rightarrow> memory" where
  "write_payload payload cursor mem = store_bytes (cursor_ptr cursor) payload mem"

definition zero_memory :: memory where
  "zero_memory a = 0"

text \<open>
  An object of the type \<open>ether_addr\<close> that lies in the memory at an address: its six
  bytes are there. A \<open>static const\<close> object such as \<open>BROADCAST_ETHER_ADDR\<close> is one.
\<close>

definition ether_addr_at :: "memory \<Rightarrow> addr \<Rightarrow> ether_addr \<Rightarrow> bool" where
  "ether_addr_at mem p a \<longleftrightarrow> load_bytes mem p sizeof_ether_addr = ether_addr_octet a"

text \<open>A memory that holds \<open>BROADCAST_ETHER_ADDR\<close> at the address 64.\<close>

definition scenario_memory :: memory where
  "scenario_memory = store_bytes 64 (ether_addr_octet BROADCAST_ETHER_ADDR) zero_memory"

declare swap_loop.simps [simp del]

section \<open>Object representations\<close>

lemma length_le_bytes: "length (le_bytes (v::'a::len word)) = LENGTH('a) div 8"
  by (simp add: le_bytes_def sizeof_def)

lemma bit_of_le_bytes:
  "bit (of_le_bytes bs :: 'a::len word) n \<longleftrightarrow>
     n < LENGTH('a) \<and> n div 8 < length bs \<and> bit (bs ! (n div 8)) (n mod 8)"
  using bit_horner_sum_uint_exp_iff [where ?'a = 8, of bs n]
  by (simp add: of_le_bytes_def bit_word_of_int_iff)

lemma of_le_bytes_le_bytes:
  assumes "8 dvd LENGTH('a::len)"
  shows "of_le_bytes (le_bytes (v::'a word)) = v"
proof (rule bit_word_eqI)
  fix n assume n: "n < LENGTH('a)"
  from assms n have d: "n div 8 < LENGTH('a) div 8"
    by (auto elim: dvdE)
  have "8 * (n div 8) + n mod 8 = n" by simp
  with n d show "bit (of_le_bytes (le_bytes v) :: 'a word) n = bit v n"
    by (simp add: bit_of_le_bytes le_bytes_def sizeof_def bit_ucast_iff bit_drop_bit_eq)
qed

lemma le_bytes_of_le_bytes:
  assumes "8 dvd LENGTH('a::len)" "length bs = LENGTH('a) div 8"
  shows "le_bytes (of_le_bytes bs :: 'a word) = bs"
proof (rule nth_equalityI)
  show "length (le_bytes (of_le_bytes bs :: 'a word)) = length bs"
    using assms by (simp add: length_le_bytes)
next
  fix k assume "k < length (le_bytes (of_le_bytes bs :: 'a word))"
  then have k: "k < LENGTH('a) div 8" by (simp add: length_le_bytes)
  show "le_bytes (of_le_bytes bs :: 'a word) ! k = bs ! k"
  proof (rule bit_word_eqI)
    fix n assume n: "n < LENGTH(8)"
    then have n8: "n < 8" by simp
    from assms k n8 have lt: "8 * k + n < LENGTH('a)"
      by (auto elim: dvdE)
    from n8 have dm: "(8 * k + n) div 8 = k" "(8 * k + n) mod 8 = n" by simp_all
    from k n8 lt assms dm
    show "bit (le_bytes (of_le_bytes bs :: 'a word) ! k) n = bit (bs ! k) n"
      by (simp add: le_bytes_def sizeof_def bit_ucast_iff bit_drop_bit_eq bit_of_le_bytes
          add.commute)
  qed
qed

section \<open>The byte swapping loop reverses the bytes\<close>

lemma length_swap_loop: "length (swap_loop n i bs) = length bs"
proof (induction n i bs rule: swap_loop.induct)
  case (1 n i bs)
  then show ?case
    by (subst swap_loop.simps) simp
qed

text \<open>
  Entering the loop at \<open>i\<close>, the bytes from \<open>i\<close> up to \<open>n - i\<close> are mirrored and the
  others stay.
\<close>

lemma swap_loop_nth:
  "length bs = n \<Longrightarrow> i \<le> n div 2 \<Longrightarrow> k < n \<Longrightarrow>
   swap_loop n i bs ! k = (if i \<le> k \<and> k < n - i then bs ! (n - 1 - k) else bs ! k)"
proof (induction n i bs rule: swap_loop.induct)
  case (1 n i bs)
  show ?case
  proof (cases "i < n div 2")
    case True
    let ?bs' = "bs[i := bs ! (n - 1 - i), n - 1 - i := bs ! i]"
    have "swap_loop n i bs ! k = swap_loop n (i + 1) ?bs' ! k"
      using True by (subst swap_loop.simps) simp
    also have "\<dots> = (if i + 1 \<le> k \<and> k < n - (i + 1) then ?bs' ! (n - 1 - k) else ?bs' ! k)"
      using True "1.prems" by (intro "1.IH") simp_all
    also have "\<dots> = (if i \<le> k \<and> k < n - i then bs ! (n - 1 - k) else bs ! k)"
      using True "1.prems" by (auto simp: nth_list_update)
    finally show ?thesis .
  next
    case False
    with "1.prems" have "i = n div 2" by simp
    moreover have "swap_loop n i bs = bs"
      using False by (subst swap_loop.simps) simp
    moreover have "n div 2 \<le> k \<Longrightarrow> k < n - n div 2 \<Longrightarrow> n - 1 - k = k"
      by arith
    ultimately show ?thesis by auto
  qed
qed

lemma swap_loop_rev: "length bs = n \<Longrightarrow> swap_loop n 0 bs = rev bs"
  by (rule nth_equalityI) (simp_all add: length_swap_loop swap_loop_nth rev_nth)

lemma change_endian_le_bytes:
  "8 dvd LENGTH('a::len) \<Longrightarrow>
   le_bytes (change_endian LittleEndian (v::'a word)) = rev (le_bytes v)"
  by (simp add: change_endian_def obj_bytes_def of_obj_bytes_def sizeof_def
      swap_loop_rev length_le_bytes le_bytes_of_le_bytes)

lemma change_endian_involution:
  assumes "8 dvd LENGTH('a::len)"
  shows "change_endian bo (change_endian bo (v::'a word)) = v"
proof (cases bo)
  case LittleEndian
  have "of_le_bytes (le_bytes (change_endian LittleEndian (change_endian LittleEndian v))) =
        (of_le_bytes (le_bytes v) :: 'a word)"
    using assms by (simp add: change_endian_le_bytes)
  with assms LittleEndian show ?thesis
    by (simp add: of_le_bytes_le_bytes)
next
  case BigEndian
  then show ?thesis by (simp add: change_endian_def)
qed

section \<open>The conversion primitives\<close>

lemma bit_bswap_16:
  "bit (bswap_16 x) n \<longleftrightarrow> n < 16 \<and> (if n < 8 then bit x (n + 8) else bit x (n - 8))"
  by (auto simp: bswap_16_def bit_simps add.commute dest: bit_imp_le_length)

lemma bswap_16_involution: "bswap_16 (bswap_16 x) = x"
  by (rule bit_word_eqI) (auto simp: bit_bswap_16)

lemma bit_bswap_32:
  "bit (bswap_32 x) n \<longleftrightarrow> n < 32 \<and>
     (if n < 8 then bit x (n + 24) else if n < 16 then bit x (n + 8)
      else if n < 24 then bit x (n - 8) else bit x (n - 24))"
  by (auto simp: bswap_32_def bit_simps add.commute dest: bit_imp_le_length)

lemma bswap_32_involution: "bswap_32 (bswap_32 x) = x"
  by (rule bit_word_eqI) (auto simp: bit_bswap_32)

lemma ntohs_htons: "ntohs bo (htons bo x) = x"
  by (cases bo) (simp_all add: ntohs_def htons_def bswap_16_involution)

lemma ntohl_htonl: "ntohl bo (htonl bo x) = x"
  by (cases bo) (simp_all add: ntohl_def htonl_def bswap_32_involution)

lemma htons_ntohs: "htons bo (ntohs bo x) = x"
  by (cases bo) (simp_all add: ntohs_def htons_def bswap_16_involution)

lemma htonl_ntohl: "htonl bo (ntohl bo x) = x"
  by (cases bo) (simp_all add: ntohl_def htonl_def bswap_32_involution)

lemma ucast_same_length:
  "LENGTH('a::len) = LENGTH('b::len) \<Longrightarrow> ucast (ucast (x::'a word) :: 'b word) = x"
  by (rule bit_word_eqI) (simp add: bit_ucast_iff)

section \<open>Conversion to network order and back\<close>

lemma to_host_to_network:
  assumes "8 dvd LENGTH('a::len)"
  shows "to_host bo (to_network bo (v::'a word)) = v"
proof -
  consider "LENGTH('a) = 16" | "LENGTH('a) = 32" | "LENGTH('a) \<noteq> 16" "LENGTH('a) \<noteq> 32"
    by blast
  then show ?thesis
  proof cases
    case 1
    then show ?thesis
      by (simp add: to_host_def to_network_def uint16_to_host_def uint16_to_network_def
          ucast_same_length ntohs_htons)
  next
    case 2
    then show ?thesis
      by (simp add: to_host_def to_network_def uint32_to_host_def uint32_to_network_def
          ucast_same_length ntohl_htonl)
  next
    case 3
    with assms show ?thesis
      by (simp add: to_host_def to_network_def generic_to_host_def generic_to_network_def
          change_endian_involution)
  qed
qed

lemma to_network_inject:
  assumes "8 dvd LENGTH('a::len)"
  shows "to_network bo (a::'a word) = to_network bo b \<longleftrightarrow> a = b"
proof
  assume "to_network bo a = to_network bo b"
  then have "to_host bo (to_network bo a) = to_host bo (to_network bo b)" by simp
  with assms show "a = b" by (simp add: to_host_to_network)
qed simp

lemma to_network_to_host:
  assumes "8 dvd LENGTH('a::len)"
  shows "to_network bo (to_host bo (v::'a word)) = v"
proof -
  consider "LENGTH('a) = 16" | "LENGTH('a) = 32" | "LENGTH('a) \<noteq> 16" "LENGTH('a) \<noteq> 32"
    by blast
  then show ?thesis
  proof cases
    case 1
    then show ?thesis
      by (simp add: to_host_def to_network_def uint16_to_host_def uint16_to_network_def
          ucast_same_length htons_ntohs)
  next
    case 2
    then show ?thesis
      by (simp add: to_host_def to_network_def uint32_to_host_def uint32_to_network_def
          ucast_same_length htonl_ntohl)
  next
    case 3
    with assms show ?thesis
      by (simp add: to_host_def to_network_def generic_to_host_def generic_to_network_def
          change_endian_involution)
  qed
qed

lemma host_net_t: "8 dvd LENGTH('a::len) \<Longrightarrow> host bo (net_t bo (v::'a word)) = v"
  by (simp add: host_def net_t_def to_host_to_network)

lemma net_t_host: "8 dvd LENGTH('a::len) \<Longrightarrow> net_t bo (host bo (x::'a word net_t)) = x"
  by (simp add: host_def net_t_def to_network_to_host)

lemma le_bytes_uint16: "le_bytes (x::uint16_t) = [ucast x, ucast (drop_bit 8 x)]"
  by (simp add: le_bytes_def sizeof_def upt_rec)

lemma le_bytes_uint32:
  "le_bytes (x::uint32_t) =
     [ucast x, ucast (drop_bit 8 x), ucast (drop_bit 16 x), ucast (drop_bit 24 x)]"
  by (simp add: le_bytes_def sizeof_def upt_rec)

lemma le_bytes_bswap_16: "le_bytes (bswap_16 x) = rev (le_bytes x)"
proof -
  have "(ucast (bswap_16 x) :: byte) = ucast (drop_bit 8 x)"
    by (rule bit_word_eqI) (auto simp: bit_simps bit_bswap_16 add.commute)
  moreover have "(ucast (drop_bit 8 (bswap_16 x)) :: byte) = ucast x"
    by (rule bit_word_eqI) (auto simp: bit_simps bit_bswap_16 add.commute)
  ultimately show ?thesis by (simp add: le_bytes_uint16)
qed

lemma le_bytes_bswap_32: "le_bytes (bswap_32 x) = rev (le_bytes x)"
proof -
  have "(ucast (bswap_32 x) :: byte) = ucast (drop_bit 24 x)"
    by (rule bit_word_eqI) (auto simp: bit_simps bit_bswap_32 add.commute)
  moreover have "(ucast (drop_bit 8 (bswap_32 x)) :: byte) = ucast (drop_bit 16 x)"
    by (rule bit_word_eqI) (auto simp: bit_simps bit_bswap_32 add.commute)
  moreover have "(ucast (drop_bit 16 (bswap_32 x)) :: byte) = ucast (drop_bit 8 x)"
    by (rule bit_word_eqI) (auto simp: bit_simps bit_bswap_32 add.commute)
  moreover have "(ucast (drop_bit 24 (bswap_32 x)) :: byte) = ucast x"
    by (rule bit_word_eqI) (auto simp: bit_simps bit_bswap_32 add.commute)
  ultimately show ?thesis by (simp add: le_bytes_uint32)
qed

lemma le_bytes_ucast:
  assumes "LENGTH('a::len) = LENGTH('b::len)"
  shows "le_bytes (ucast (x::'a word) :: 'b word) = le_bytes x"
proof -
  have "(ucast (drop_bit (8 * k) (ucast x :: 'b word)) :: byte) = ucast (drop_bit (8 * k) x)" for k
    using assms by (intro bit_word_eqI) (auto simp: bit_simps dest: bit_imp_le_length)
  with assms show ?thesis
    by (simp add: le_bytes_def sizeof_def)
qed

text \<open>
  In every width the bytes of \<open>to_network bo v\<close> in the memory of the host are the bytes
  of \<open>v\<close> from the most significant one down.
\<close>

lemma obj_bytes_to_network:
  assumes "8 dvd LENGTH('a::len)"
  shows "obj_bytes bo (to_network bo (v::'a word)) = rev (le_bytes v)"
proof -
  consider "LENGTH('a) = 16" | "LENGTH('a) = 32" | "LENGTH('a) \<noteq> 16" "LENGTH('a) \<noteq> 32"
    by blast
  then show ?thesis
  proof cases
    case 1
    then have "le_bytes (ucast (bswap_16 (ucast v)) :: 'a word) = rev (le_bytes v)"
      by (simp add: le_bytes_ucast le_bytes_bswap_16)
    with 1 show ?thesis
      by (cases bo) (simp_all add: obj_bytes_def to_network_def uint16_to_network_def htons_def
          ucast_same_length)
  next
    case 2
    then have "le_bytes (ucast (bswap_32 (ucast v)) :: 'a word) = rev (le_bytes v)"
      by (simp add: le_bytes_ucast le_bytes_bswap_32)
    with 2 show ?thesis
      by (cases bo) (simp_all add: obj_bytes_def to_network_def uint32_to_network_def htonl_def
          ucast_same_length)
  next
    case 3
    with assms show ?thesis
      by (cases bo) (simp_all add: obj_bytes_def to_network_def generic_to_network_def
          change_endian_le_bytes, simp add: change_endian_def)
  qed
qed

section \<open>The claims on \<open>net_t\<close>\<close>

text \<open>
  C2. Round trip: for every host value \<open>v\<close> of a width that is a whole number of bytes,
  the \<open>net_t\<close> constructed from \<open>v\<close> reads back through \<open>host ()\<close> as \<open>v\<close>. The
  widths 16 and 32 go through \<open>htons\<close>, \<open>ntohs\<close>, \<open>htonl\<close> and \<open>ntohl\<close>, the other
  widths through the generic byte swapping.
\<close>

theorem net_t_round_trip:
  "8 dvd LENGTH('a::len) \<Longrightarrow> host bo (net_t bo (v::'a word)) = v"
  by (simp add: host_def net_t_def to_host_to_network)

theorem net_t_round_trip_witness:
  "8 dvd LENGTH(64) \<and>
   host LittleEndian (net_t LittleEndian (0x0102030405060708 :: 64 word)) = 0x0102030405060708 \<and>
   8 dvd LENGTH(16) \<and>
   host LittleEndian (net_t LittleEndian (0x0800 :: uint16_t)) = 0x0800"
  using net_t_round_trip [where ?'a = 64 and bo = LittleEndian and v = "0x0102030405060708"]
    net_t_round_trip [where ?'a = 16 and bo = LittleEndian and v = "0x0800"]
  by simp

text \<open>
  C3. Equality: \<open>net_t (a) == net_t (b)\<close>, which compares the stored network order
  bits, holds if and only if \<open>a = b\<close>; the mixed comparisons of \<open>net_t (a)\<close> with the
  host value \<open>a\<close> are true, and the inequalities are the negations. For any two
  \<open>net_t\<close> values, whatever they were constructed from, \<open>==\<close> holds if and only if
  their host values are equal, and every \<open>net_t\<close> value is the \<open>net_t\<close> of its host
  value.
\<close>

theorem net_t_equality:
  "8 dvd LENGTH('a::len) \<Longrightarrow>
   (eq_net_net (net_t bo a) (net_t bo (b::'a word)) \<longleftrightarrow> a = b) \<and>
   eq_net_host bo (net_t bo a) a \<and>
   eq_host_net bo a (net_t bo a) \<and>
   (ne_net_net (net_t bo a) (net_t bo b) \<longleftrightarrow> a \<noteq> b) \<and>
   \<not> ne_net_host bo (net_t bo a) a \<and>
   \<not> ne_host_net bo a (net_t bo a) \<and>
   (eq_net_net x y \<longleftrightarrow> host bo x = host bo (y::'a word net_t)) \<and>
   eq_net_net (net_t bo (host bo x)) x"
proof -
  assume w: "8 dvd LENGTH('a)"
  have eq: "eq_net_net (net_t bo a) (net_t bo b) \<longleftrightarrow> a = b"
    using w by (simp add: eq_net_net_def net_t_def to_network_inject)
  have ne: "ne_net_net (net_t bo a) (net_t bo b) \<longleftrightarrow> a \<noteq> b"
    using w by (simp add: ne_net_net_def net_t_def to_network_inject)
  have eq_nh: "eq_net_host bo (net_t bo a) a" and eq_hn: "eq_host_net bo a (net_t bo a)"
    and ne_nh: "\<not> ne_net_host bo (net_t bo a) a" and ne_hn: "\<not> ne_host_net bo a (net_t bo a)"
    using w by (simp_all add: eq_net_host_def eq_host_net_def ne_net_host_def ne_host_net_def
        host_net_t)
  have hosts: "eq_net_net x y \<longleftrightarrow> host bo x = host bo y"
  proof
    assume "eq_net_net x y"
    then show "host bo x = host bo y"
      by (simp add: eq_net_net_def host_def)
  next
    assume "host bo x = host bo y"
    then have "to_network bo (to_host bo (net x)) = to_network bo (to_host bo (net y))"
      by (simp add: host_def)
    with w show "eq_net_net x y"
      by (simp add: to_network_to_host eq_net_net_def)
  qed
  have onto: "eq_net_net (net_t bo (host bo x)) x"
    using w by (simp add: eq_net_net_def net_t_host)
  show ?thesis
    by (intro conjI eq eq_nh eq_hn ne ne_nh ne_hn hosts onto)
qed

theorem net_t_equality_witness:
  "8 dvd LENGTH(32) \<and>
   (eq_net_net (net_t LittleEndian (0x0A000001 :: uint32_t)) (net_t LittleEndian 0x0A000002)
      \<longleftrightarrow> (0x0A000001 :: uint32_t) = 0x0A000002) \<and>
   eq_net_net (net_t LittleEndian (0x0A000001 :: uint32_t)) (net_t LittleEndian 0x0A000001) \<and>
   eq_net_host LittleEndian (net_t LittleEndian (0x0A000001 :: uint32_t)) 0x0A000001"
  using net_t_equality [where ?'a = 32 and bo = LittleEndian and a = "0x0A000001 :: uint32_t"
      and b = "0x0A000002 :: uint32_t"]
    net_t_equality [where ?'a = 32 and bo = LittleEndian and a = "0x0A000001 :: uint32_t"
      and b = "0x0A000001 :: uint32_t"]
  by simp

text \<open>
  C4. Arithmetic: \<open>net_t (a) + net_t (b) == net_t (a + b)\<close> and
  \<open>net_t (a) - net_t (b) == net_t (a - b)\<close>, where the sum and the difference of host
  values are those of the unsigned type, modulo two to the width. The same holds when
  one of the operands is a host value.
\<close>

theorem net_t_arithmetic:
  "8 dvd LENGTH('a::len) \<Longrightarrow>
   eq_net_net (plus_net_net bo (net_t bo a) (net_t bo b)) (net_t bo (a + b :: 'a word)) \<and>
   eq_net_net (minus_net_net bo (net_t bo a) (net_t bo b)) (net_t bo (a - b)) \<and>
   eq_net_net (plus_net_host bo (net_t bo a) b) (net_t bo (a + b)) \<and>
   eq_net_net (plus_host_net bo a (net_t bo b)) (net_t bo (a + b)) \<and>
   eq_net_net (minus_net_host bo (net_t bo a) b) (net_t bo (a - b)) \<and>
   eq_net_net (minus_host_net bo a (net_t bo b)) (net_t bo (a - b)) \<and>
   host bo (plus_net_net bo (net_t bo a) (net_t bo b)) = a + b \<and>
   host bo (minus_net_net bo (net_t bo a) (net_t bo b)) = a - b \<and>
   unat (host bo (plus_net_net bo (net_t bo a) (net_t bo b))) =
     (unat a + unat b) mod 2 ^ LENGTH('a)"
  by (simp add: eq_net_net_def plus_net_net_def minus_net_net_def plus_net_host_def
      plus_host_net_def minus_net_host_def minus_host_net_def host_net_t unat_word_ariths)

theorem net_t_arithmetic_witness:
  "8 dvd LENGTH(16) \<and>
   eq_net_net (plus_net_net LittleEndian (net_t LittleEndian 0xFFFF) (net_t LittleEndian 2))
     (net_t LittleEndian (0xFFFF + 2 :: uint16_t)) \<and>
   (0xFFFF + 2 :: uint16_t) = 1 \<and>
   host LittleEndian (minus_net_net LittleEndian (net_t LittleEndian 1) (net_t LittleEndian 2)) =
     (0xFFFF :: uint16_t)"
  using net_t_arithmetic [where ?'a = 16 and bo = LittleEndian and a = "0xFFFF" and b = 2]
    net_t_arithmetic [where ?'a = 16 and bo = LittleEndian and a = 1 and b = 2]
  by simp

text \<open>
  C5. For \<open>uint16_t\<close> the conversions are \<open>htons\<close> and \<open>ntohs\<close>, for \<open>uint32_t\<close> they
  are \<open>htonl\<close> and \<open>ntohl\<close>. For every other width the generic conversions reverse the
  bytes of the value on a little-endian host and return the value as it is on a
  big-endian host. The header builds for the two byte orders and for no other value of
  \<open>__BYTE_ORDER\<close>.
\<close>

theorem change_endian_dispatch:
  "to_network bo (h16::uint16_t) = htons bo h16 \<and>
   to_host bo (n16::uint16_t) = ntohs bo n16 \<and>
   to_network bo (h32::uint32_t) = htonl bo h32 \<and>
   to_host bo (n32::uint32_t) = ntohl bo n32 \<and>
   (8 dvd LENGTH('a::len) \<and> LENGTH('a) \<noteq> 16 \<and> LENGTH('a) \<noteq> 32 \<longrightarrow>
      obj_bytes LittleEndian (to_network LittleEndian (v::'a word)) =
        rev (obj_bytes LittleEndian v) \<and>
      obj_bytes LittleEndian (to_host LittleEndian v) = rev (obj_bytes LittleEndian v) \<and>
      to_network BigEndian v = v \<and>
      to_host BigEndian v = v) \<and>
   change_endian_build LITTLE_ENDIAN_macro = Inr LittleEndian \<and>
   change_endian_build BIG_ENDIAN_macro = Inr BigEndian \<and>
   (b \<noteq> LITTLE_ENDIAN_macro \<and> b \<noteq> BIG_ENDIAN_macro \<longrightarrow>
      change_endian_build b = Inl (Error ''Please set __BYTE_ORDER in <bits/endian.h>''))"
  by (simp add: to_network_def to_host_def uint16_to_network_def uint16_to_host_def
      uint32_to_network_def uint32_to_host_def generic_to_network_def generic_to_host_def
      change_endian_le_bytes obj_bytes_def change_endian_build_def LITTLE_ENDIAN_macro_def
      BIG_ENDIAN_macro_def, simp add: change_endian_def)

theorem change_endian_dispatch_witness:
  "8 dvd LENGTH(64) \<and> LENGTH(64) \<noteq> 16 \<and> LENGTH(64) \<noteq> 32 \<and>
   obj_bytes LittleEndian (to_network LittleEndian (0x0102030405060708 :: 64 word)) =
     [1, 2, 3, 4, 5, 6, 7, 8] \<and>
   (3412::nat) \<noteq> LITTLE_ENDIAN_macro \<and> 3412 \<noteq> BIG_ENDIAN_macro \<and>
   change_endian_build 3412 = Inl (Error ''Please set __BYTE_ORDER in <bits/endian.h>'')"
  using change_endian_dispatch [where ?'a = 64 and v = "0x0102030405060708" and b = 3412]
  by (simp add: LITTLE_ENDIAN_macro_def BIG_ENDIAN_macro_def obj_bytes_def le_bytes_def
      sizeof_def upt_rec)

text \<open>
  C6. \<open>from_net\<close> stores a network order value as it is: the field \<open>net\<close> of
  \<open>from_net (n)\<close> is \<open>n\<close>, on every host.
\<close>

theorem from_net_stores_unchanged: "net (from_net n) = n"
  by (simp add: from_net_def)

text \<open>
  C9. The hash of a \<open>net_t\<close> is the hash of the underlying integer type at the stored
  network order bits, and two \<open>net_t\<close> values that compare equal have the same hash.
\<close>

theorem hash_net_t_bits:
  "hash_net_t hash_host_t x = hash_host_t (net x) \<and>
   (eq_net_net a b \<longrightarrow> hash_net_t hash_host_t a = hash_net_t hash_host_t b) \<and>
   (equal_to_net_t a b \<longrightarrow> hash_net_t hash_host_t a = hash_net_t hash_host_t b)"
  by (simp add: hash_net_t_def eq_net_net_def equal_to_net_t_def)

theorem hash_net_t_bits_witness:
  "eq_net_net (net_t LittleEndian (0x0800 :: uint16_t)) (from_net (0x0008 :: uint16_t)) \<and>
   equal_to_net_t (net_t LittleEndian (0x0800 :: uint16_t)) (from_net (0x0008 :: uint16_t)) \<and>
   hash_net_t ucast (net_t LittleEndian (0x0800 :: uint16_t)) =
     hash_net_t ucast (from_net (0x0008 :: uint16_t)) \<and>
   hash_net_t ucast (from_net (0x0008 :: uint16_t)) = 8"
  using hash_net_t_bits [where hash_host_t = ucast and a = "net_t LittleEndian (0x0800 :: uint16_t)"
      and b = "from_net (0x0008 :: uint16_t)" and x = "from_net (0x0008 :: uint16_t)"]
  by (simp add: hash_net_t_def eq_net_net_def equal_to_net_t_def net_t_def from_net_def to_network_def
      uint16_to_network_def htons_def bswap_16_def)

section \<open>The claim on the buffer cursor\<close>

lemma fst_write_with:
  "fst (write_with sizeof_H writer cursor mem) = cursor\<lparr>offset := offset cursor + sizeof_H\<rparr>"
  by (simp add: write_with_def)

lemma offset_write_with_seq:
  "offset (fst (write_with_seq calls cursor mem)) = offset cursor + sum_list (map fst calls)"
  by (induction calls cursor mem rule: write_with_seq.induct)
    (simp_all add: write_with_def)

lemma capacity_write_with_seq:
  "capacity (fst (write_with_seq calls cursor mem)) = capacity cursor"
  by (induction calls cursor mem rule: write_with_seq.induct)
    (simp_all add: write_with_def)

lemma length_reserved_regions: "length (reserved_regions calls cursor mem) = length calls"
  by (induction calls cursor mem rule: reserved_regions.induct)
    (simp_all add: write_with_def)

lemma reserved_regions_nth:
  "i < length calls \<Longrightarrow>
   reserved_regions calls cursor mem ! i =
     (offset cursor + sum_list (take i (map fst calls)), fst (calls ! i))"
proof (induction calls cursor mem arbitrary: i rule: reserved_regions.induct)
  case (1 cursor mem)
  then show ?case by simp
next
  case (2 sizeof_H writer calls cursor mem)
  show ?case
  proof (cases i)
    case 0
    then show ?thesis by simp
  next
    case (Suc k)
    with "2.prems" have "k < length calls" by simp
    with Suc "2.IH" [of "fst (write_with sizeof_H writer cursor mem)"
        "snd (write_with sizeof_H writer cursor mem)" k]
    show ?thesis
      by (simp add: write_with_def)
  qed
qed

lemma sum_list_take_mono:
  fixes xs :: "nat list"
  assumes "i \<le> j"
  shows "sum_list (take i xs) \<le> sum_list (take j xs)"
proof -
  have "sum_list (take i (take j xs)) + sum_list (drop i (take j xs)) = sum_list (take j xs)"
    by (simp only: sum_list_append [symmetric] append_take_drop_id)
  moreover from assms have "take i (take j xs) = take i xs"
    by (simp add: min_def)
  ultimately show ?thesis by simp
qed

lemma sum_list_take_le:
  fixes xs :: "nat list"
  shows "sum_list (take i xs) \<le> sum_list xs"
  using sum_list_take_mono [of i "length xs" xs] by (cases "i \<le> length xs") simp_all

lemma sum_list_take_Suc:
  fixes xs :: "nat list"
  shows "i < length xs \<Longrightarrow> sum_list (take (Suc i) xs) = sum_list (take i xs) + xs ! i"
  by (simp add: take_Suc_conv_app_nth)

text \<open>
  C8. After a sequence of chained \<open>write_with\<close> calls that reserve the sizes \<open>s1\<close>, ...,
  \<open>sN\<close>, whose sum fits the capacity left, the offset of the cursor is the offset before
  plus \<open>s1 + ... + sN\<close>, which is \<open>s1 + ... + sN\<close> for a new cursor. Every call advances
  the offset by the size it reserves. The region of call \<open>i\<close> starts where the regions of
  the calls before it end and has the size \<open>si\<close>; it lies within the capacity, and the
  region of an earlier call ends at or before the start of the region of a later call,
  so that the regions of two different calls have no byte in common.
\<close>

theorem write_with_cursor_monotone:
  assumes "offset cursor + sum_list (map fst calls) \<le> capacity cursor"
  shows
    "offset (fst (write_with_seq calls cursor mem)) = offset cursor + sum_list (map fst calls) \<and>
     offset (fst (write_with_seq calls (buffer_cursor bdesc total_size) mem)) =
       sum_list (map fst calls) \<and>
     offset (fst (write_with sizeof_H writer cursor mem)) = offset cursor + sizeof_H \<and>
     length (reserved_regions calls cursor mem) = length calls \<and>
     (\<forall>i < length calls.
        fst (reserved_regions calls cursor mem ! i) =
          offset cursor + sum_list (take i (map fst calls)) \<and>
        snd (reserved_regions calls cursor mem ! i) = fst (calls ! i) \<and>
        fst (reserved_regions calls cursor mem ! i) + snd (reserved_regions calls cursor mem ! i)
          \<le> capacity cursor) \<and>
     (\<forall>i j. i < j \<and> j < length calls \<longrightarrow>
        fst (reserved_regions calls cursor mem ! i) + snd (reserved_regions calls cursor mem ! i)
          \<le> fst (reserved_regions calls cursor mem ! j)) \<and>
     (\<forall>i j. i < length calls \<and> j < length calls \<and> i \<noteq> j \<longrightarrow>
        region_bytes (reserved_regions calls cursor mem ! i) \<inter>
        region_bytes (reserved_regions calls cursor mem ! j) = {})"
proof -
  let ?sizes = "map fst calls"
  let ?start = "\<lambda>i. offset cursor + sum_list (take i ?sizes)"
  have end_eq: "?start i + fst (calls ! i) = ?start (Suc i)" if "i < length calls" for i
    using that by (simp add: sum_list_take_Suc)
  have within: "?start i + fst (calls ! i) \<le> capacity cursor" if "i < length calls" for i
  proof -
    have "sum_list (take (Suc i) ?sizes) \<le> sum_list ?sizes"
      by (rule sum_list_take_le)
    with end_eq [OF that] assms show ?thesis by simp
  qed
  have ordered: "?start i + fst (calls ! i) \<le> ?start j" if "i < j" "j < length calls" for i j
  proof -
    from that have "sum_list (take (Suc i) ?sizes) \<le> sum_list (take j ?sizes)"
      by (intro sum_list_take_mono) simp
    moreover from that have "i < length calls" by simp
    ultimately show ?thesis using end_eq [of i] by simp
  qed
  have apart: "{?start i..<?start i + fst (calls ! i)} \<inter> {?start j..<?start j + fst (calls ! j)} = {}"
    if "i < length calls" "j < length calls" "i \<noteq> j" for i j
  proof (cases "i < j")
    case True
    with that ordered [of i j] show ?thesis by auto
  next
    case False
    with that have "j < i" by simp
    with that ordered [of j i] show ?thesis by auto
  qed
  show ?thesis
    using within ordered apart
    by (simp add: offset_write_with_seq fst_write_with length_reserved_regions
        reserved_regions_nth buffer_cursor_def region_bytes_def)
qed

theorem write_with_cursor_monotone_witness:
  "offset (buffer_cursor scenario_bdesc 64) +
     sum_list (map fst [(14, \<lambda>p. store_bytes p [1, 2]), (20, \<lambda>p. store_bytes p [3]),
       (20, \<lambda>p. store_bytes p [])])
     \<le> capacity (buffer_cursor scenario_bdesc 64) \<and>
   offset (fst (write_with_seq [(14, \<lambda>p. store_bytes p [1, 2]), (20, \<lambda>p. store_bytes p [3]),
       (20, \<lambda>p. store_bytes p [])] (buffer_cursor scenario_bdesc 64) zero_memory)) = 54 \<and>
   reserved_regions [(14, \<lambda>p. store_bytes p [1, 2]), (20, \<lambda>p. store_bytes p [3]),
       (20, \<lambda>p. store_bytes p [])] (buffer_cursor scenario_bdesc 64) zero_memory =
     [(0, 14), (14, 20), (34, 20)]"
proof -
  let ?calls = "[(14, \<lambda>p. store_bytes p [1, 2]), (20, \<lambda>p. store_bytes p [3]),
    (20::nat, \<lambda>p. store_bytes p [])]"
  let ?cursor = "buffer_cursor scenario_bdesc 64"
  have fits: "offset ?cursor + sum_list (map fst ?calls) \<le> capacity ?cursor"
    by (simp add: buffer_cursor_def)
  have "offset (fst (write_with_seq ?calls ?cursor zero_memory)) =
      offset ?cursor + sum_list (map fst ?calls)"
    using write_with_cursor_monotone [OF fits] by (rule conjunct1)
  moreover have "reserved_regions ?calls ?cursor zero_memory = [(0, 14), (14, 20), (34, 20)]"
    by (simp add: buffer_cursor_def write_with_def)
  ultimately show ?thesis
    using fits by (simp add: buffer_cursor_def)
qed

section \<open>Memory\<close>

lemma length_load_bytes: "length (load_bytes mem p n) = n"
  by (simp add: load_bytes_def)

lemma nth_load_bytes: "i < n \<Longrightarrow> load_bytes mem p n ! i = mem (p + i)"
  by (simp add: load_bytes_def)

lemma load_bytes_append:
  "load_bytes mem p (n + k) = load_bytes mem p n @ load_bytes mem (p + n) k"
proof -
  have "[p..<p + n + k] = [p..<p + n] @ [p + n..<p + n + k]"
    by (rule upt_add_eq_append) simp
  then show ?thesis
    by (simp add: load_bytes_def add.assoc)
qed

lemma load_bytes_cong:
  "(\<And>a. p \<le> a \<Longrightarrow> a < p + n \<Longrightarrow> mem a = mem' a) \<Longrightarrow> load_bytes mem p n = load_bytes mem' p n"
  by (simp add: load_bytes_def)

lemma load_bytes_store_bytes: "load_bytes (store_bytes p bs mem) p (length bs) = bs"
  by (rule nth_equalityI) (simp_all add: length_load_bytes nth_load_bytes store_bytes_def)

lemma store_bytes_other: "a < p \<or> p + length bs \<le> a \<Longrightarrow> store_bytes p bs mem a = mem a"
  by (auto simp: store_bytes_def)

lemma length_ether_addr_octet: "length (ether_addr_octet a) = 6"
  by (cases a) simp

lemma length_obj_bytes: "length (obj_bytes bo (v::'a::len word)) = LENGTH('a) div 8"
  by (cases bo) (simp_all add: obj_bytes_def length_le_bytes)

section \<open>The Ethernet header\<close>

lemma fst_ethernet_write_header:
  "fst (ethernet_write_header bo mpipe_env cursor dst ether_type mem) =
     cursor\<lparr>offset := offset cursor + 14\<rparr>"
  by (simp add: ethernet_write_header_def write_with_def sizeof_ether_header_def)

lemma ethernet_write_header_bytes:
  "load_bytes (snd (ethernet_write_header bo mpipe_env cursor dst ether_type mem))
     (cursor_ptr cursor) 14 =
   ether_addr_octet dst @ ether_addr_octet (link_addr mpipe_env) @ obj_bytes bo ether_type"
proof -
  let ?p = "cursor_ptr cursor"
  let ?m1 = "store_bytes ?p (ether_addr_octet dst) mem"
  let ?m2 = "store_bytes (?p + 6) (ether_addr_octet (link_addr mpipe_env)) ?m1"
  let ?m3 = "store_bytes (?p + 12) (obj_bytes bo ether_type) ?m2"
  have m: "snd (ethernet_write_header bo mpipe_env cursor dst ether_type mem) = ?m3"
    by (simp add: ethernet_write_header_def write_with_def mempcpy_def sizeof_ether_addr_def
        ether_dhost_def ether_shost_def ether_type_field_def length_ether_addr_octet)
  have "load_bytes ?m3 ?p (6 + (6 + 2)) =
      load_bytes ?m3 ?p 6 @ load_bytes ?m3 (?p + 6) 6 @ load_bytes ?m3 (?p + 6 + 6) 2"
    by (simp only: load_bytes_append)
  moreover have "load_bytes ?m3 ?p 6 = load_bytes ?m1 ?p 6"
    by (rule load_bytes_cong) (simp add: store_bytes_other length_ether_addr_octet)
  moreover have "load_bytes ?m3 (?p + 6) 6 = load_bytes ?m2 (?p + 6) 6"
    by (rule load_bytes_cong) (simp add: store_bytes_other)
  moreover have "load_bytes ?m3 (?p + 6 + 6) 2 = obj_bytes bo ether_type"
    using load_bytes_store_bytes [of "?p + 12" "obj_bytes bo ether_type" ?m2]
    by (simp add: length_obj_bytes add.assoc)
  moreover have "load_bytes ?m1 ?p 6 = ether_addr_octet dst"
    using load_bytes_store_bytes [of ?p "ether_addr_octet dst" mem]
    by (simp add: length_ether_addr_octet)
  moreover have "load_bytes ?m2 (?p + 6) 6 = ether_addr_octet (link_addr mpipe_env)"
    using load_bytes_store_bytes [of "?p + 6" "ether_addr_octet (link_addr mpipe_env)" ?m1]
    by (simp add: length_ether_addr_octet)
  ultimately show ?thesis using m by simp
qed

section \<open>The claims on sending a frame\<close>

lemma unat_frame_size:
  "sizeof_ether_header + unat (payload_size::size_t) < 2 ^ 64 \<Longrightarrow>
   unat (of_nat sizeof_ether_header + payload_size) = 14 + unat payload_size"
  by (simp add: sizeof_ether_header_def unat_word_ariths)

lemma cursor_ptr_buffer_cursor: "cursor_ptr (buffer_cursor bdesc total_size) = bdesc_va bdesc"
  by (simp add: cursor_ptr_def buffer_cursor_def)

lemma cursor_ptr_after_header:
  "cursor_ptr (fst (ethernet_write_header bo mpipe_env (buffer_cursor bdesc total_size) dst
     ether_type mem)) = bdesc_va bdesc + 14"
  by (simp add: fst_ethernet_write_header cursor_ptr_def buffer_cursor_def)

lemma write_payload_before: "a < cursor_ptr cursor \<Longrightarrow> write_payload payload cursor mem a = mem a"
  by (simp add: write_payload_def store_bytes_other)

lemma write_payload_written:
  "load_bytes (write_payload payload cursor mem) (cursor_ptr cursor) (length payload) = payload"
  by (simp add: write_payload_def load_bytes_store_bytes)

text \<open>
  C1, as amended. Let the payload size \<open>L\<close> be such that \<open>14 + L\<close> does not wrap around
  in \<open>size_t\<close>, let the allocator give a buffer, and let the payload writer write the \<open>L\<close>
  payload bytes at the position of its cursor and nothing before it. Then
  \<open>ethernet_send_frame\<close> puts one descriptor on the egress queue, for the allocated
  buffer and with the transfer size \<open>14 + L\<close>; the frame is the six bytes of the
  destination address, the six bytes of the address of the link, the two bytes of the
  ethertype as they are in the memory of the caller, and the \<open>L\<close> payload bytes.
\<close>

theorem ethernet_send_frame_layout:
  fixes payload_size :: size_t
  assumes alloc:
      "mpipe_alloc_buffer mpipe_env (of_nat sizeof_ether_header + payload_size) = Inr bdesc"
    and fits: "sizeof_ether_header + unat payload_size < 2 ^ 64"
    and before_kept:
      "\<forall>cursor m a. a < cursor_ptr cursor \<longrightarrow> payload_writer cursor m a = m a"
    and payload_written:
      "\<forall>cursor m. load_bytes (payload_writer cursor m) (cursor_ptr cursor) (unat payload_size) =
         payload"
  shows "\<exists>edesc mem'.
    ethernet_send_frame bo mpipe_alloc_buffer mpipe_env payload_size dst ether_type
      payload_writer mem =
      (Inr (), mpipe_env\<lparr>equeue := equeue mpipe_env @ [edesc]\<rparr>, mem') \<and>
    bound edesc = 1 \<and>
    va edesc = bdesc_va bdesc \<and>
    unat (xfer_size edesc) = 14 + unat payload_size \<and>
    length (frame_bytes mem' edesc) = 14 + unat payload_size \<and>
    frame_bytes mem' edesc =
      ether_addr_octet dst @ ether_addr_octet (link_addr mpipe_env) @
      obj_bytes bo ether_type @ payload"
proof -
  let ?frame_size = "of_nat sizeof_ether_header + payload_size"
  let ?hw = "ethernet_write_header bo mpipe_env (buffer_cursor bdesc ?frame_size) dst
    ether_type mem"
  let ?mem2 = "payload_writer (fst ?hw) (snd ?hw)"
  let ?edesc = "gxio_mpipe_edesc_set_bdesc
    (edesc_zero\<lparr>bound := 1, hwb := 1, xfer_size := ?frame_size\<rparr>) bdesc"
  let ?va = "bdesc_va bdesc"
  have result: "ethernet_send_frame bo mpipe_alloc_buffer mpipe_env payload_size dst ether_type
      payload_writer mem =
      (Inr (), mpipe_env\<lparr>equeue := equeue mpipe_env @ [?edesc]\<rparr>, ?mem2)"
    using alloc
    by (simp add: ethernet_send_frame_def Let_def case_prod_unfold gxio_mpipe_equeue_put_def)
  have bound: "bound ?edesc = 1" and va: "va ?edesc = ?va"
    and xfer: "xfer_size ?edesc = ?frame_size"
    by (simp_all add: gxio_mpipe_edesc_set_bdesc_def edesc_zero_def)
  have size: "unat ?frame_size = 14 + unat payload_size"
    using fits by (rule unat_frame_size)
  have ptr: "cursor_ptr (fst ?hw) = ?va + 14"
    by (rule cursor_ptr_after_header)
  have "load_bytes ?mem2 ?va 14 = load_bytes (snd ?hw) ?va 14"
    using before_kept ptr by (intro load_bytes_cong) simp
  also have "\<dots> = ether_addr_octet dst @ ether_addr_octet (link_addr mpipe_env) @
      obj_bytes bo ether_type"
    using ethernet_write_header_bytes [of bo mpipe_env "buffer_cursor bdesc ?frame_size" dst
        ether_type mem]
    by (simp add: cursor_ptr_buffer_cursor)
  finally have header: "load_bytes ?mem2 ?va 14 =
      ether_addr_octet dst @ ether_addr_octet (link_addr mpipe_env) @ obj_bytes bo ether_type" .
  have body: "load_bytes ?mem2 (?va + 14) (unat payload_size) = payload"
    using payload_written ptr by metis
  have "frame_bytes ?mem2 ?edesc = load_bytes ?mem2 ?va (14 + unat payload_size)"
    by (simp only: frame_bytes_def va xfer size)
  also have "\<dots> = load_bytes ?mem2 ?va 14 @ load_bytes ?mem2 (?va + 14) (unat payload_size)"
    by (rule load_bytes_append)
  finally have frame: "frame_bytes ?mem2 ?edesc =
      ether_addr_octet dst @ ether_addr_octet (link_addr mpipe_env) @
      obj_bytes bo ether_type @ payload"
    by (simp add: header body)
  have len: "length (frame_bytes ?mem2 ?edesc) = 14 + unat payload_size"
    by (simp only: frame_bytes_def length_load_bytes xfer size)
  from result bound va xfer size len frame show ?thesis
    by (intro exI [of _ ?edesc] exI [of _ ?mem2]) simp
qed

theorem ethernet_send_frame_layout_witness:
  "alloc_available scenario_env (of_nat sizeof_ether_header + 2) = Inr scenario_bdesc \<and>
   sizeof_ether_header + unat (2 :: size_t) < 2 ^ 64 \<and>
   frames_after (ethernet_send_frame LittleEndian alloc_available scenario_env 2
     (Ether_addr 0xAA 0xBB 0xCC 0xDD 0xEE 0xFF) 0x0008 (write_payload [0x45, 0x00]) zero_memory) =
     [[0xAA, 0xBB, 0xCC, 0xDD, 0xEE, 0xFF, 0x11, 0x22, 0x33, 0x44, 0x55, 0x66, 0x08, 0x00,
       0x45, 0x00]]"
proof -
  have alloc: "alloc_available scenario_env (of_nat sizeof_ether_header + 2) = Inr scenario_bdesc"
    by (simp add: alloc_available_def)
  have fits: "sizeof_ether_header + unat (2 :: size_t) < 2 ^ 64"
    by (simp add: sizeof_ether_header_def)
  have before_kept:
    "\<forall>cursor m a. a < cursor_ptr cursor \<longrightarrow> write_payload [0x45, 0x00] cursor m a = m a"
    by (simp add: write_payload_before)
  have payload_written:
    "\<forall>cursor m. load_bytes (write_payload [0x45, 0x00] cursor m) (cursor_ptr cursor)
       (unat (2 :: size_t)) = [0x45, 0x00]"
  proof -
    have len: "unat (2 :: size_t) = length [0x45, 0x00 :: byte]"
      by simp
    show ?thesis
      unfolding len by (intro allI write_payload_written)
  qed
  from ethernet_send_frame_layout [where mpipe_alloc_buffer = alloc_available
      and mpipe_env = scenario_env and bo = LittleEndian
      and dst = "Ether_addr 0xAA 0xBB 0xCC 0xDD 0xEE 0xFF" and ether_type = "0x0008"
      and mem = zero_memory, OF alloc fits before_kept payload_written]
  obtain edesc mem' where
    result: "ethernet_send_frame LittleEndian alloc_available scenario_env 2
       (Ether_addr 0xAA 0xBB 0xCC 0xDD 0xEE 0xFF) 0x0008 (write_payload [0x45, 0x00]) zero_memory =
       (Inr (), scenario_env\<lparr>equeue := equeue scenario_env @ [edesc]\<rparr>, mem')"
    and frame: "frame_bytes mem' edesc =
       ether_addr_octet (Ether_addr 0xAA 0xBB 0xCC 0xDD 0xEE 0xFF) @
       ether_addr_octet (link_addr scenario_env) @ obj_bytes LittleEndian (0x0008 :: uint16_t) @
       [0x45, 0x00]"
    by blast
  have "obj_bytes LittleEndian (0x0008 :: uint16_t) = [0x08, 0x00]"
    by (simp add: obj_bytes_def le_bytes_uint16)
  with result frame alloc fits show ?thesis
    by (simp add: frames_after_def sent_frames_def scenario_env_def)
qed

text \<open>
  C1, as stated, for every payload size: with the payload size \<open>2^64 - 1\<close> the sum
  \<open>headers_size + payload_size\<close> wraps around to 13, and the frame that is submitted has
  13 bytes, not \<open>14 + L\<close>.
\<close>

theorem ethernet_send_frame_wraps_counterexample:
  "map length (frames_after (ethernet_send_frame LittleEndian alloc_available scenario_env (- 1)
     BROADCAST_ETHER_ADDR 0x0008 (write_payload []) zero_memory)) = [13] \<and>
   map length (frames_after (ethernet_send_frame LittleEndian alloc_available scenario_env (- 1)
     BROADCAST_ETHER_ADDR 0x0008 (write_payload []) zero_memory)) \<noteq> [14 + unat (- 1 :: size_t)]"
  by (simp add: ethernet_send_frame_def alloc_available_def Let_def case_prod_unfold
      frames_after_def sent_frames_def frame_bytes_def length_load_bytes
      gxio_mpipe_edesc_set_bdesc_def gxio_mpipe_equeue_put_def edesc_zero_def scenario_env_def
      sizeof_ether_header_def)

text \<open>
  C7. When the allocator fails, \<open>ethernet_send_frame\<close> ends with the error of the
  allocator; the environment, with its egress queue, and the memory are as they were
  before the call: no descriptor is submitted and no byte is written.
\<close>

theorem ethernet_send_frame_alloc_failure:
  "mpipe_alloc_buffer mpipe_env (of_nat sizeof_ether_header + payload_size) = Inl e \<Longrightarrow>
   ethernet_send_frame bo mpipe_alloc_buffer mpipe_env payload_size dst ether_type
     payload_writer mem = (Inl e, mpipe_env, mem)"
  by (simp add: ethernet_send_frame_def)

theorem ethernet_send_frame_alloc_failure_witness:
  "alloc_exhausted scenario_env (of_nat sizeof_ether_header + 2) = Inl ''no buffer'' \<and>
   ethernet_send_frame LittleEndian alloc_exhausted scenario_env 2 BROADCAST_ETHER_ADDR 0x0008
     (write_payload [0x45, 0x00]) zero_memory = (Inl ''no buffer'', scenario_env, zero_memory) \<and>
   frames_after (ethernet_send_frame LittleEndian alloc_exhausted scenario_env 2
     BROADCAST_ETHER_ADDR 0x0008 (write_payload [0x45, 0x00]) zero_memory) = []"
proof -
  have fails: "alloc_exhausted scenario_env (of_nat sizeof_ether_header + 2) = Inl ''no buffer''"
    by (simp add: alloc_exhausted_def)
  from fails have "ethernet_send_frame LittleEndian alloc_exhausted scenario_env 2 BROADCAST_ETHER_ADDR 0x0008
     (write_payload [0x45, 0x00]) zero_memory = (Inl ''no buffer'', scenario_env, zero_memory)"
    by (rule ethernet_send_frame_alloc_failure
        [where mpipe_alloc_buffer = alloc_exhausted and mpipe_env = scenario_env])
  with fails show ?thesis
    by (simp add: frames_after_def sent_frames_def scenario_env_def)
qed

text \<open>The header is written into the fourteen bytes at the cursor and nowhere else.\<close>

lemma ethernet_write_header_other:
  assumes "a < cursor_ptr cursor \<or> cursor_ptr cursor + 14 \<le> a"
  shows "snd (ethernet_write_header bo mpipe_env cursor dst ether_type mem) a = mem a"
proof -
  have "length (obj_bytes bo ether_type) = 2"
    by (simp add: length_obj_bytes)
  with assms show ?thesis
    by (auto simp: ethernet_write_header_def write_with_def mempcpy_def sizeof_ether_addr_def
        ether_dhost_def ether_shost_def ether_type_field_def length_ether_addr_octet
        store_bytes_def)
qed

text \<open>
  What \<open>ethernet_send_frame\<close> leaves in the memory: the memory it was given when the
  allocator fails, and otherwise what the payload writer leaves after the header was
  written.
\<close>

lemma ethernet_send_frame_memory:
  "snd (snd (ethernet_send_frame bo mpipe_alloc_buffer mpipe_env payload_size dst ether_type
     payload_writer mem)) =
   (case mpipe_alloc_buffer mpipe_env (of_nat sizeof_ether_header + payload_size) of
      Inl e \<Rightarrow> mem
    | Inr bdesc \<Rightarrow>
        payload_writer
          \<lparr>cursor_bdesc = bdesc, offset = sizeof_ether_header,
           capacity = unat (of_nat sizeof_ether_header + payload_size)\<rparr>
          (snd (ethernet_write_header bo mpipe_env
             (buffer_cursor bdesc (of_nat sizeof_ether_header + payload_size)) dst ether_type
             mem)))"
  by (simp add: ethernet_send_frame_def Let_def case_prod_unfold fst_ethernet_write_header
      buffer_cursor_def sizeof_ether_header_def split: sum.split)

text \<open>
  C10. The broadcast address is the six bytes \<open>FF FF FF FF FF FF\<close>, and no operation
  modifies it. Let the constant lie in the memory at an address \<open>p\<close>, apart from the
  header of the buffer that the allocator gives, and let the payload writer of the caller
  leave its six bytes alone. Then after \<open>ethernet_send_frame\<close>, whether the allocator
  gave a buffer or failed, the six bytes at \<open>p\<close> are still those of the constant; and
  \<open>_ethernet_write_header\<close> at a cursor apart from \<open>p\<close> leaves them as well. The
  operations of \<open>net_t\<close> take and give values and have no access to the memory.
\<close>

theorem BROADCAST_ETHER_ADDR_read_only:
  assumes stored: "ether_addr_at mem p BROADCAST_ETHER_ADDR"
    and apart:
      "\<forall>bdesc. mpipe_alloc_buffer mpipe_env (of_nat sizeof_ether_header + payload_size) =
           Inr bdesc \<longrightarrow>
         (p + sizeof_ether_addr \<le> bdesc_va bdesc \<or>
          bdesc_va bdesc + sizeof_ether_header \<le> p) \<and>
         (\<forall>m a. p \<le> a \<and> a < p + sizeof_ether_addr \<longrightarrow>
            payload_writer
              \<lparr>cursor_bdesc = bdesc, offset = sizeof_ether_header,
               capacity = unat (of_nat sizeof_ether_header + payload_size)\<rparr> m a = m a)"
  shows
    "ether_addr_octet BROADCAST_ETHER_ADDR = [0xFF, 0xFF, 0xFF, 0xFF, 0xFF, 0xFF] \<and>
     ether_addr_at
       (snd (snd (ethernet_send_frame bo mpipe_alloc_buffer mpipe_env payload_size dst
          ether_type payload_writer mem)))
       p BROADCAST_ETHER_ADDR \<and>
     (p + sizeof_ether_addr \<le> cursor_ptr cursor \<or>
      cursor_ptr cursor + sizeof_ether_header \<le> p \<longrightarrow>
        ether_addr_at (snd (ethernet_write_header bo mpipe_env cursor dst ether_type mem))
          p BROADCAST_ETHER_ADDR)"
proof -
  let ?frame_size = "of_nat sizeof_ether_header + payload_size :: size_t"
  let ?mem' = "snd (snd (ethernet_send_frame bo mpipe_alloc_buffer mpipe_env payload_size dst
    ether_type payload_writer mem))"
  have octets: "ether_addr_octet BROADCAST_ETHER_ADDR = [0xFF, 0xFF, 0xFF, 0xFF, 0xFF, 0xFF]"
    by (simp add: BROADCAST_ETHER_ADDR_def)
  have same: "?mem' a = mem a" if a: "p \<le> a" "a < p + 6" for a
  proof (cases "mpipe_alloc_buffer mpipe_env ?frame_size")
    case (Inl e)
    then show ?thesis
      by (simp add: ethernet_send_frame_memory)
  next
    case (Inr bdesc)
    let ?mem1 = "snd (ethernet_write_header bo mpipe_env (buffer_cursor bdesc ?frame_size) dst
      ether_type mem)"
    from apart Inr have region: "p + 6 \<le> bdesc_va bdesc \<or> bdesc_va bdesc + 14 \<le> p"
      and writer: "\<And>m. payload_writer
          \<lparr>cursor_bdesc = bdesc, offset = sizeof_ether_header,
           capacity = unat ?frame_size\<rparr> m a = m a"
      using a by (simp_all add: sizeof_ether_addr_def sizeof_ether_header_def)
    from region a have "a < cursor_ptr (buffer_cursor bdesc ?frame_size) \<or>
        cursor_ptr (buffer_cursor bdesc ?frame_size) + 14 \<le> a"
      by (auto simp: cursor_ptr_buffer_cursor)
    then have "?mem1 a = mem a"
      by (rule ethernet_write_header_other)
    moreover have "?mem' a = ?mem1 a"
      using Inr writer [of ?mem1] by (simp add: ethernet_send_frame_memory)
    ultimately show ?thesis by simp
  qed
  have sent: "ether_addr_at ?mem' p BROADCAST_ETHER_ADDR"
  proof -
    have "load_bytes ?mem' p 6 = load_bytes mem p 6"
      by (rule load_bytes_cong) (rule same)
    with stored show ?thesis
      by (simp add: ether_addr_at_def sizeof_ether_addr_def)
  qed
  have header: "ether_addr_at (snd (ethernet_write_header bo mpipe_env cursor dst ether_type mem))
      p BROADCAST_ETHER_ADDR"
    if "p + sizeof_ether_addr \<le> cursor_ptr cursor \<or> cursor_ptr cursor + sizeof_ether_header \<le> p"
  proof -
    have "load_bytes (snd (ethernet_write_header bo mpipe_env cursor dst ether_type mem)) p 6 =
        load_bytes mem p 6"
      using that
      by (intro load_bytes_cong ethernet_write_header_other)
        (auto simp: sizeof_ether_addr_def sizeof_ether_header_def)
    with stored show ?thesis
      by (simp add: ether_addr_at_def sizeof_ether_addr_def)
  qed
  from octets sent header show ?thesis by blast
qed

theorem BROADCAST_ETHER_ADDR_read_only_witness:
  "ether_addr_at scenario_memory 64 BROADCAST_ETHER_ADDR \<and>
   ether_addr_at
     (snd (snd (ethernet_send_frame LittleEndian alloc_available scenario_env 2
        BROADCAST_ETHER_ADDR 0x0008 (write_payload [0x45, 0x00]) scenario_memory)))
     64 BROADCAST_ETHER_ADDR \<and>
   ether_addr_at
     (snd (snd (ethernet_send_frame LittleEndian alloc_exhausted scenario_env 2
        BROADCAST_ETHER_ADDR 0x0008 (write_payload [0x45, 0x00]) scenario_memory)))
     64 BROADCAST_ETHER_ADDR \<and>
   frames_after (ethernet_send_frame LittleEndian alloc_available scenario_env 2
     BROADCAST_ETHER_ADDR 0x0008 (write_payload [0x45, 0x00]) scenario_memory) =
     [[0xFF, 0xFF, 0xFF, 0xFF, 0xFF, 0xFF, 0x11, 0x22, 0x33, 0x44, 0x55, 0x66, 0x08, 0x00,
       0x45, 0x00]]"
proof -
  have stored: "ether_addr_at scenario_memory 64 BROADCAST_ETHER_ADDR"
    using load_bytes_store_bytes [of 64 "ether_addr_octet BROADCAST_ETHER_ADDR" zero_memory]
    by (simp add: ether_addr_at_def scenario_memory_def sizeof_ether_addr_def
        length_ether_addr_octet)
  have apart_available:
    "\<forall>bdesc. alloc_available scenario_env (of_nat sizeof_ether_header + 2) = Inr bdesc \<longrightarrow>
       (64 + sizeof_ether_addr \<le> bdesc_va bdesc \<or> bdesc_va bdesc + sizeof_ether_header \<le> 64) \<and>
       (\<forall>m a. 64 \<le> a \<and> a < 64 + sizeof_ether_addr \<longrightarrow>
          write_payload [0x45, 0x00]
            \<lparr>cursor_bdesc = bdesc, offset = sizeof_ether_header,
             capacity = unat (of_nat sizeof_ether_header + 2 :: size_t)\<rparr> m a = m a)"
    by (auto simp: alloc_available_def scenario_bdesc_def sizeof_ether_addr_def
        sizeof_ether_header_def write_payload_def cursor_ptr_def store_bytes_def)
  have apart_exhausted:
    "\<forall>bdesc. alloc_exhausted scenario_env (of_nat sizeof_ether_header + 2) = Inr bdesc \<longrightarrow>
       (64 + sizeof_ether_addr \<le> bdesc_va bdesc \<or> bdesc_va bdesc + sizeof_ether_header \<le> 64) \<and>
       (\<forall>m a. 64 \<le> a \<and> a < 64 + sizeof_ether_addr \<longrightarrow>
          write_payload [0x45, 0x00]
            \<lparr>cursor_bdesc = bdesc, offset = sizeof_ether_header,
             capacity = unat (of_nat sizeof_ether_header + 2 :: size_t)\<rparr> m a = m a)"
    by (simp add: alloc_exhausted_def)
  have sent: "ether_addr_at
     (snd (snd (ethernet_send_frame LittleEndian alloc_available scenario_env 2
        BROADCAST_ETHER_ADDR 0x0008 (write_payload [0x45, 0x00]) scenario_memory)))
     64 BROADCAST_ETHER_ADDR"
    using BROADCAST_ETHER_ADDR_read_only [where mpipe_alloc_buffer = alloc_available
        and mpipe_env = scenario_env and payload_size = 2, OF stored apart_available]
    by blast
  have failed: "ether_addr_at
     (snd (snd (ethernet_send_frame LittleEndian alloc_exhausted scenario_env 2
        BROADCAST_ETHER_ADDR 0x0008 (write_payload [0x45, 0x00]) scenario_memory)))
     64 BROADCAST_ETHER_ADDR"
    using BROADCAST_ETHER_ADDR_read_only [where mpipe_alloc_buffer = alloc_exhausted
        and mpipe_env = scenario_env and payload_size = 2, OF stored apart_exhausted]
    by blast
  have frames: "frames_after (ethernet_send_frame LittleEndian alloc_available scenario_env 2
     BROADCAST_ETHER_ADDR 0x0008 (write_payload [0x45, 0x00]) scenario_memory) =
     [[0xFF, 0xFF, 0xFF, 0xFF, 0xFF, 0xFF, 0x11, 0x22, 0x33, 0x44, 0x55, 0x66, 0x08, 0x00,
       0x45, 0x00]]"
    by (simp add: ethernet_send_frame_def alloc_available_def Let_def case_prod_unfold
      frames_after_def sent_frames_def frame_bytes_def load_bytes_def upt_rec
      gxio_mpipe_edesc_set_bdesc_def gxio_mpipe_equeue_put_def edesc_zero_def scenario_env_def
      sizeof_ether_header_def ethernet_write_header_def write_with_def mempcpy_def
      sizeof_ether_addr_def ether_dhost_def ether_shost_def ether_type_field_def
      store_bytes_def write_payload_def cursor_ptr_def buffer_cursor_def scenario_bdesc_def
      BROADCAST_ETHER_ADDR_def obj_bytes_def le_bytes_uint16)
  from stored sent failed frames show ?thesis by blast
qed

end
